theory Spec2Isabelle
  imports Main "HOL-Library.Multiset" "HOL-Library.AList"
begin

section \<open>Resource vectors\<close>

text \<open>
  Modelled from the spec: the package \<^verbatim>\<open>resources\<close> is not among the source files.
  The spec (section 3, Resource) describes a resource as a mapping from a resource-type
  name to an integer quantity in which a missing key counts as 0, with pointwise addition
  and subtraction and \<^verbatim>\<open>fitIn(big, small)\<close> meaning that every dimension of \<^verbatim>\<open>big\<close>
  is at least that of \<^verbatim>\<open>small\<close>. The Go map is kept as an association list; the
  dimensions of a result are those named by either operand.
\<close>

type_synonym Resource = "(string \<times> int) list"

definition quantity :: "Resource \<Rightarrow> string \<Rightarrow> int" where
  "quantity r k = (case map_of r k of None \<Rightarrow> 0 | Some v \<Rightarrow> v)"

definition dimensions :: "Resource \<Rightarrow> Resource \<Rightarrow> string list" where
  "dimensions a b = remdups (map fst a @ map fst b)"

definition Add :: "Resource \<Rightarrow> Resource \<Rightarrow> Resource" where
  "Add left right = map (\<lambda>k. (k, quantity left k + quantity right k)) (dimensions left right)"

definition Sub :: "Resource \<Rightarrow> Resource \<Rightarrow> Resource" where
  "Sub left right = map (\<lambda>k. (k, quantity left k - quantity right k)) (dimensions left right)"

definition FitIn :: "Resource \<Rightarrow> Resource \<Rightarrow> bool" where
  "FitIn larger smaller =
     list_all (\<lambda>k. quantity smaller k \<le> quantity larger k) (dimensions larger smaller)"

definition Clone :: "Resource \<Rightarrow> Resource" where
  "Clone r = r"

text \<open>
  Modelled from the spec: a \<^verbatim>\<open>*resources.Resource\<close> may be nil. A nil vector names no
  dimension, so by the missing-key rule every quantity of it is 0.
\<close>

definition vec :: "Resource option \<Rightarrow> Resource" where
  "vec r = (case r of None \<Rightarrow> [] | Some v \<Rightarrow> v)"

section \<open>Access control lists\<close>

text \<open>
  Modelled from the spec: the package \<^verbatim>\<open>security\<close> is not among the source files.
  The spec (section 4.2) gives \<^verbatim>\<open>checkAccess\<close>: true for the wildcard ACL, when the
  user is listed, or when one of the user's groups is listed.
\<close>

record ACL =
  users :: "string list"
  groups :: "string list"
  allAllowed :: bool

record UserGroup =
  User :: string
  Groups :: "string list"

definition CheckAccess :: "ACL \<Rightarrow> UserGroup \<Rightarrow> bool" where
  "CheckAccess acl ug =
     (allAllowed acl \<or> User ug \<in> set (users acl) \<or> list_ex (\<lambda>g. g \<in> set (groups acl)) (Groups ug))"

section \<open>The queue structure\<close>

text \<open>
  The states of the object state machine shared by queues and partitions
  (\<^verbatim>\<open>stateMachine.Current()\<close>).
\<close>

datatype ObjectState = New | Active | Draining | Stopped

text \<open>One constructor for every error the modelled functions build with \<^verbatim>\<open>fmt.Errorf\<close>.\<close>

datatype error =
    AddChildToLeaf string
  | AddChildWhileDraining string
  | OverMaximum Resource string Resource
  | ReleaseTooLarge "Resource option" string Resource
  | InvalidQueueName string
  | QueueCreationFailed string
  | PartitionStoppedApplication string string
  | ApplicationExists string string
  | PlacementFailed string error
  | RejectedByRules string
  | NoQueueWithoutRules string string
  | CreateQueueFailed string string
  | QueueNotFound string string
  | IllegalQueueName string
  | SubmitDenied string string
  | ParentIsLeaf string string
  | NilNode string
  | PartitionStoppedNode string string
  | NodeExists string string
  | PartitionStoppedAllocation string string
  | MissingUUID string string
  | NodeNotFound string
  | ApplicationNotFound string
  | NodeNotSchedulable string
  | CannotAllocate string error

text \<open>
  \<^verbatim>\<open>QueueInfo\<close>: the struct of the queue. \<^verbatim>\<open>Parent\<close> is the link to the parent queue
  (\<^verbatim>\<open>None\<close> for nil, the root); the queue carries its chain of ancestors, which is what
  the recursive methods walk. \<^verbatim>\<open>children\<close> is the map of direct children by name; a nil
  map and an empty map are both the empty list (\<^verbatim>\<open>addChildQueue\<close> initialises a nil
  map before writing, and deleting from a nil map does nothing). \<^verbatim>\<open>stateMachine\<close> holds
  the current state. The lock and \<^verbatim>\<open>stateTime\<close> are left out.
\<close>

datatype QueueInfo = QueueInfo
  (Name: string)
  (Parent: "QueueInfo option")
  (Properties: "(string \<times> string) list")
  (adminACL: ACL)
  (submitACL: ACL)
  (maxResource: "Resource option")
  (guaranteedResource: "Resource option")
  (allocatedResource: Resource)
  (isLeaf: bool)
  (isManaged: bool)
  (stateMachine: ObjectState)
  (children: "(string \<times> QueueInfo) list")

fun GetQueuePath :: "QueueInfo \<Rightarrow> string" where
  "GetQueuePath (QueueInfo n par pr aa sa mx gr al lf mg st ch) =
     (case par of
        None \<Rightarrow> n
      | Some p \<Rightarrow> GetQueuePath p @ ''.'' @ n)"

definition IsDraining :: "QueueInfo \<Rightarrow> bool" where
  "IsDraining qi = (stateMachine qi = Draining)"

text \<open>\<^verbatim>\<open>setMaxResource\<close>: only the root (nil parent) takes the new maximum.\<close>

fun setMaxResource :: "QueueInfo \<Rightarrow> Resource \<Rightarrow> QueueInfo" where
  "setMaxResource (QueueInfo n par pr aa sa mx gr al lf mg st ch) newMax =
     (if par \<noteq> None then QueueInfo n par pr aa sa mx gr al lf mg st ch
      else QueueInfo n par pr aa sa (Some (Clone newMax)) gr al lf mg st ch)"

text \<open>
  \<^verbatim>\<open>IncAllocatedResource\<close>: the method mutates the queue and its ancestors in place and
  returns an error or nil; the model returns the queue (with its ancestors) as it is after
  the call, together with the error.
\<close>

fun IncAllocatedResource :: "QueueInfo \<Rightarrow> Resource \<Rightarrow> bool \<Rightarrow> QueueInfo \<times> error option" where
  "IncAllocatedResource (QueueInfo n par pr aa sa mx gr al lf mg st ch) alloc nodeReported =
     (let newAllocation = Add al alloc in
      if \<not> nodeReported \<and> (case mx of None \<Rightarrow> False | Some m \<Rightarrow> \<not> FitIn m newAllocation)
      then (QueueInfo n par pr aa sa mx gr al lf mg st ch,
            Some (OverMaximum alloc (GetQueuePath (QueueInfo n par pr aa sa mx gr al lf mg st ch)) (vec mx)))
      else (case par of
              None \<Rightarrow> (QueueInfo n None pr aa sa mx gr newAllocation lf mg st ch, None)
            | Some p \<Rightarrow>
                (case IncAllocatedResource p alloc nodeReported of
                   (p', Some err) \<Rightarrow> (QueueInfo n (Some p') pr aa sa mx gr al lf mg st ch, Some err)
                 | (p', None) \<Rightarrow> (QueueInfo n (Some p') pr aa sa mx gr newAllocation lf mg st ch, None))))"

text \<open>
  \<^verbatim>\<open>decAllocatedResource\<close>: \<^verbatim>\<open>alloc\<close> may be nil, which skips the check.
\<close>

fun decAllocatedResource :: "QueueInfo \<Rightarrow> Resource option \<Rightarrow> QueueInfo \<times> error option" where
  "decAllocatedResource (QueueInfo n par pr aa sa mx gr al lf mg st ch) alloc =
     (if alloc \<noteq> None \<and> \<not> FitIn al (vec alloc)
      then (QueueInfo n par pr aa sa mx gr al lf mg st ch,
            Some (ReleaseTooLarge alloc (GetQueuePath (QueueInfo n par pr aa sa mx gr al lf mg st ch)) al))
      else (case par of
              None \<Rightarrow> (QueueInfo n None pr aa sa mx gr (Sub al (vec alloc)) lf mg st ch, None)
            | Some p \<Rightarrow>
                (case decAllocatedResource p alloc of
                   (p', Some err) \<Rightarrow> (QueueInfo n (Some p') pr aa sa mx gr al lf mg st ch, Some err)
                 | (p', None) \<Rightarrow> (QueueInfo n (Some p') pr aa sa mx gr (Sub al (vec alloc)) lf mg st ch, None))))"

text \<open>\<^verbatim>\<open>strings.ToLower\<close> on the bytes of a name (queue names are ASCII).\<close>

definition lower_char :: "char \<Rightarrow> char" where
  "lower_char c =
     (let n = (of_char c :: nat) in if 65 \<le> n \<and> n \<le> 90 then char_of (n + 32) else c)"

definition ToLower :: "string \<Rightarrow> string" where
  "ToLower s = map lower_char s"

text \<open>
  \<^verbatim>\<open>addChildQueue\<close> and \<^verbatim>\<open>removeChildQueue\<close>: the first returns an error or nil, the
  second returns nothing.
\<close>

fun addChildQueue :: "QueueInfo \<Rightarrow> QueueInfo \<Rightarrow> QueueInfo \<times> error option" where
  "addChildQueue (QueueInfo n par pr aa sa mx gr al lf mg st ch) child =
     (if lf then (QueueInfo n par pr aa sa mx gr al lf mg st ch, Some (AddChildToLeaf n))
      else if IsDraining (QueueInfo n par pr aa sa mx gr al lf mg st ch)
      then (QueueInfo n par pr aa sa mx gr al lf mg st ch, Some (AddChildWhileDraining n))
      else (QueueInfo n par pr aa sa mx gr al lf mg st (AList.update (Name child) child ch), None))"

fun removeChildQueue :: "QueueInfo \<Rightarrow> string \<Rightarrow> QueueInfo" where
  "removeChildQueue (QueueInfo n par pr aa sa mx gr al lf mg st ch) name =
     QueueInfo n par pr aa sa mx gr al lf mg st (AList.delete (ToLower name) ch)"

text \<open>\<^verbatim>\<open>CheckSubmitAccess\<close> and \<^verbatim>\<open>CheckAdminAccess\<close>: the queue, then its parent.\<close>

fun CheckSubmitAccess :: "QueueInfo \<Rightarrow> UserGroup \<Rightarrow> bool" where
  "CheckSubmitAccess (QueueInfo n par pr aa sa mx gr al lf mg st ch) user =
     (let allow = (CheckAccess sa user \<or> CheckAccess aa user) in
      if \<not> allow \<and> par \<noteq> None then CheckSubmitAccess (the par) user else allow)"

fun CheckAdminAccess :: "QueueInfo \<Rightarrow> UserGroup \<Rightarrow> bool" where
  "CheckAdminAccess (QueueInfo n par pr aa sa mx gr al lf mg st ch) user =
     (let allow = CheckAccess aa user in
      if \<not> allow \<and> par \<noteq> None then CheckAdminAccess (the par) user else allow)"

text \<open>The queue followed by its ancestors, the root last: the queues a walk to the root visits.\<close>

fun lineage :: "QueueInfo \<Rightarrow> QueueInfo list" where
  "lineage (QueueInfo n par pr aa sa mx gr al lf mg st ch) =
     QueueInfo n par pr aa sa mx gr al lf mg st ch #
       (case par of None \<Rightarrow> [] | Some p \<Rightarrow> lineage p)"

text \<open>
  The two checks of the walks: \<^verbatim>\<open>overMax r a\<close> is the guard of \<^verbatim>\<open>IncAllocatedResource\<close>
  at queue \<^verbatim>\<open>a\<close> (a maximum is set and the new allocation does not fit in it),
  \<^verbatim>\<open>tooLarge r a\<close> that of \<^verbatim>\<open>decAllocatedResource\<close> (the release does not fit in what
  the queue holds).
\<close>

definition overMax :: "Resource \<Rightarrow> QueueInfo \<Rightarrow> bool" where
  "overMax r a =
     (case maxResource a of None \<Rightarrow> False | Some m \<Rightarrow> \<not> FitIn m (Add (allocatedResource a) r))"

definition tooLarge :: "Resource \<Rightarrow> QueueInfo \<Rightarrow> bool" where
  "tooLarge r a = (\<not> FitIn (allocatedResource a) r)"

definition admits :: "UserGroup \<Rightarrow> QueueInfo \<Rightarrow> bool" where
  "admits u a = (CheckAccess (submitACL a) u \<or> CheckAccess (adminACL a) u)"

subsection \<open>Example queues\<close>

text \<open>
  A root queue with a maximum of 10 memory holding 8, and its leaf \<^verbatim>\<open>default\<close> holding 3;
  the root's submit ACL is the wildcard, as in the test configuration.
\<close>

definition denyAll :: ACL where
  "denyAll = \<lparr>users = [], groups = [], allAllowed = False\<rparr>"

definition allowAll :: ACL where
  "allowAll = \<lparr>users = [], groups = [], allAllowed = True\<rparr>"

definition rootQueue :: QueueInfo where
  "rootQueue = QueueInfo ''root'' None [] denyAll allowAll (Some [(''memory'', 10)]) None
     [(''memory'', 8)] False True Active []"

definition defaultQueue :: QueueInfo where
  "defaultQueue = QueueInfo ''default'' (Some rootQueue) [] denyAll denyAll None None
     [(''memory'', 3)] True True Active []"

definition lockedRoot :: QueueInfo where
  "lockedRoot = QueueInfo ''root'' None [] denyAll denyAll None None [] False True Active []"

definition lockedQueue :: QueueInfo where
  "lockedQueue = QueueInfo ''default'' (Some lockedRoot) [] denyAll denyAll None None
     [] True True Active [(''ghost'', lockedRoot)]"

definition drainingParent :: QueueInfo where
  "drainingParent = QueueInfo ''parent'' (Some rootQueue) [] denyAll denyAll None None
     [] False True Draining [(''sub-leaf'', defaultQueue)]"

definition lockedTwin :: QueueInfo where
  "lockedTwin = QueueInfo ''other'' (Some lockedRoot) [(''k'', ''v'')] denyAll denyAll None None
     [(''memory'', 1)] True False Active []"

definition someUser :: UserGroup where
  "someUser = \<lparr>User = ''alice'', Groups = [''dev'']\<rparr>"

section \<open>The objects of the scheduler\<close>

text \<open>
  Modelled from the spec: the package \<^verbatim>\<open>objects\<close> (Queue, Application, Node, Allocation)
  is not among the source files; \<^verbatim>\<open>partition.go\<close> only calls it. The definitions of
  this section follow the data model of spec section 3 and the contracts of sections 4.3
  to 4.5.

  An allocation: the committed placement of an ask on a node. \<^verbatim>\<open>AllocApplicationID\<close> and
  \<^verbatim>\<open>AllocNodeID\<close> are its fields \<^verbatim>\<open>ApplicationID\<close> and \<^verbatim>\<open>NodeID\<close>.
\<close>

record Allocation =
  UUID :: string
  AllocationKey :: string
  AllocApplicationID :: string
  AllocNodeID :: string
  ReservedNodeID :: string
  AllocatedResource :: Resource

text \<open>
  Modelled from the spec: a node (section 4.5) has a capacity, an available resource, its
  allocations by UUID (kept in the order they were added, for \<^verbatim>\<open>GetAllAllocations\<close>), a
  schedulable flag and, per application reserved on it, the number of reserved asks.
  \<^verbatim>\<open>AddAllocation\<close> subtracts from the available resource and ignores a UUID the node
  already has; \<^verbatim>\<open>UnReserveApps\<close> returns the reserved application IDs and, in the same
  order, their ask counts.
\<close>

record Node =
  NodeID :: string
  totalResource :: Resource
  availableResource :: Resource
  nodeAllocations :: "(string \<times> Allocation) list"
  schedulable :: bool
  nodeReservations :: "(string \<times> int) list"






text \<open>
  Modelled from the spec: an application (section 3) has an identity, the name of its
  queue, its user, the link to its queue once placed (\<^verbatim>\<open>None\<close> is nil) and its live
  allocations by UUID (\<^verbatim>\<open>AppGetQueue\<close>, \<^verbatim>\<open>AppAddAllocation\<close> and
  \<^verbatim>\<open>AppRemoveAllocation\<close> are its methods \<^verbatim>\<open>GetQueue\<close>, \<^verbatim>\<open>AddAllocation\<close> and
  \<^verbatim>\<open>RemoveAllocation\<close>). A queue is referred to by the names on the way from the root down
  to it (the root is the empty list). \<^verbatim>\<open>RemoveAllocation\<close> returns the allocation it
  removed, or nil. The pending asks and the reservations of an application are not
  modelled.
\<close>

type_synonym QueueRef = "string list"

record Application =
  ApplicationID :: string
  QueueName :: string
  appUser :: UserGroup
  appQueue :: "QueueRef option"
  appAllocations :: "string \<rightharpoonup> Allocation"

definition GetUser :: "Application \<Rightarrow> UserGroup" where
  "GetUser app = appUser app"


definition SetQueue :: "Application \<Rightarrow> QueueRef \<Rightarrow> Application" where
  "SetQueue app q = app\<lparr>appQueue := Some q\<rparr>"



text \<open>
  Modelled from the spec: the queue of package \<^verbatim>\<open>objects\<close> (sections 3 and 4.3). The
  queues of a partition form a tree below the root; a queue holds its children by name.
  The methods that walk from a queue to the root take the root and the reference of the
  queue, and visit the queues on that path.
\<close>

datatype Queue = Queue
  (QName: string)
  (QisLeaf: bool)
  (QisManaged: bool)
  (QsubmitACL: ACL)
  (QadminACL: ACL)
  (QmaxResource: "Resource option")
  (QallocatedResource: Resource)
  (Qstate: ObjectState)
  (Qapplications: "string list")
  (Qchildren: "(string \<times> Queue) list")

definition GetChildQueue :: "Queue \<Rightarrow> string \<Rightarrow> Queue option" where
  "GetChildQueue q name = map_of (Qchildren q) name"


fun setChildren :: "(string \<times> Queue) list \<Rightarrow> Queue \<Rightarrow> Queue" where
  "setChildren v (Queue n lf mg sa aa mx al st ap ch) = Queue n lf mg sa aa mx al st ap v"

fun setApplications :: "string list \<Rightarrow> Queue \<Rightarrow> Queue" where
  "setApplications v (Queue n lf mg sa aa mx al st ap ch) = Queue n lf mg sa aa mx al st v ch"

fun resolve :: "Queue \<Rightarrow> QueueRef \<Rightarrow> Queue option" where
  "resolve q [] = Some q"
| "resolve q (p # ps) = (case GetChildQueue q p of None \<Rightarrow> None | Some c \<Rightarrow> resolve c ps)"

text \<open>The queues from the root down to the referred queue: the queue and its ancestors.\<close>

fun pathQueues :: "Queue \<Rightarrow> QueueRef \<Rightarrow> Queue list" where
  "pathQueues q [] = [q]"
| "pathQueues q (p # ps) =
     q # (case GetChildQueue q p of None \<Rightarrow> [] | Some c \<Rightarrow> pathQueues c ps)"

text \<open>Change the referred queue, or every queue on the path to it.\<close>

fun modifyAt :: "(Queue \<Rightarrow> Queue) \<Rightarrow> Queue \<Rightarrow> QueueRef \<Rightarrow> Queue" where
  "modifyAt f q [] = f q"
| "modifyAt f q (p # ps) =
     (case GetChildQueue q p of
        None \<Rightarrow> q
      | Some c \<Rightarrow> setChildren (AList.update p (modifyAt f c ps) (Qchildren q)) q)"


definition IsLeafQueue :: "Queue \<Rightarrow> QueueRef \<Rightarrow> bool" where
  "IsLeafQueue rootq ref = (case resolve rootq ref of None \<Rightarrow> False | Some q \<Rightarrow> QisLeaf q)"

definition QueueCheckSubmitAccess :: "Queue \<Rightarrow> QueueRef \<Rightarrow> UserGroup \<Rightarrow> bool" where
  "QueueCheckSubmitAccess rootq ref u =
     list_ex (\<lambda>q. CheckAccess (QsubmitACL q) u \<or> CheckAccess (QadminACL q) u) (pathQueues rootq ref)"

definition QueueAddApplication :: "Queue \<Rightarrow> QueueRef \<Rightarrow> Application \<Rightarrow> Queue" where
  "QueueAddApplication rootq ref app =
     modifyAt (\<lambda>q. setApplications (Qapplications q @ [ApplicationID app]) q) rootq ref"




text \<open>
  Modelled from the spec: a queue name (section 6) matches \<^verbatim>\<open>[A-Za-z0-9_-]{1,64}\<close>.
\<close>

definition nameChar :: "char \<Rightarrow> bool" where
  "nameChar c =
     (let n = (of_char c :: nat) in
      (65 \<le> n \<and> n \<le> 90) \<or> (97 \<le> n \<and> n \<le> 122) \<or> (48 \<le> n \<and> n \<le> 57) \<or> n = 95 \<or> n = 45)"

definition QueueNameRegExp :: "string \<Rightarrow> bool" where
  "QueueNameRegExp name = (1 \<le> length name \<and> length name \<le> 64 \<and> list_all nameChar name)"

text \<open>
  Modelled from the spec: \<^verbatim>\<open>NewDynamicQueue(name, leaf, parent)\<close> creates a queue below
  an existing parent. It follows \<^verbatim>\<open>NewUnmanagedQueue\<close> of the queue source file: the name
  is checked, the queue is created unmanaged with its name in lower case, no ACL and nothing
  allocated, and it is added to the parent, which refuses when it is a leaf or Draining.
\<close>

definition NewDynamicQueue ::
  "Queue \<Rightarrow> string \<Rightarrow> bool \<Rightarrow> QueueRef \<Rightarrow> Queue \<times> (error + QueueRef)" where
  "NewDynamicQueue rootq name leaf parent =
     (if \<not> QueueNameRegExp name then (rootq, Inl (InvalidQueueName name))
      else (case resolve rootq parent of
              None \<Rightarrow> (rootq, Inl (QueueCreationFailed name))
            | Some p \<Rightarrow>
                if QisLeaf p \<or> Qstate p = Draining then (rootq, Inl (QueueCreationFailed name))
                else (let qi = Queue (ToLower name) leaf False
                                 \<lparr>users = [], groups = [], allAllowed = False\<rparr>
                                 \<lparr>users = [], groups = [], allAllowed = False\<rparr>
                                 None [] New [] []
                      in (modifyAt (\<lambda>q. setChildren (AList.update (QName qi) qi (Qchildren q)) q)
                            rootq parent,
                          Inr (parent @ [QName qi])))))"

section \<open>The partition context\<close>

text \<open>
  The placement manager belongs to the package \<^verbatim>\<open>placement\<close>, which is not among the
  source files: whether it is initialised and what \<^verbatim>\<open>PlaceApplication\<close> answers for an
  application (an error, or the queue name it sets on the application) are parameters.
\<close>

record PlacementManager =
  IsInitialised :: bool
  PlaceApplication :: "Queue \<Rightarrow> Application \<Rightarrow> error + string"

text \<open>
  \<^verbatim>\<open>PartitionContext\<close>: \<^verbatim>\<open>PartitionName\<close> is the field \<^verbatim>\<open>Name\<close>, \<^verbatim>\<open>partitionState\<close> the
  current state of \<^verbatim>\<open>stateMachine\<close>. The maps hold values, so a change to an
  application or a node found in a map is written back under the key it was found at.
  \<^verbatim>\<open>reservedApps\<close> is kept as an association list, so that a property of all its
  entries can be evaluated. Go's \<^verbatim>\<open>int\<close> of the reservation counts is an unbounded
  integer here: a count is the number of reservations of one application.
\<close>

record PartitionContext =
  RmID :: string
  PartitionName :: string
  root :: Queue
  applications :: "string \<rightharpoonup> Application"
  reservedApps :: "(string \<times> int) list"
  nodes :: "string \<rightharpoonup> Node"
  allocations :: "string \<rightharpoonup> Allocation"
  placementManager :: PlacementManager
  partitionState :: ObjectState
  isPreemptable :: bool
  totalPartitionResource :: "Resource option"

definition isDraining :: "PartitionContext \<Rightarrow> bool" where
  "isDraining pc = (partitionState pc = Draining)"

definition isRunning :: "PartitionContext \<Rightarrow> bool" where
  "isRunning pc = (partitionState pc = Active)"

definition isStopped :: "PartitionContext \<Rightarrow> bool" where
  "isStopped pc = (partitionState pc = Stopped)"

subsection \<open>Queue lookup\<close>

text \<open>
  \<^verbatim>\<open>configs.RootQueue\<close> and \<^verbatim>\<open>configs.DOT\<close> are constants of a package that is not
  among the source files; the test configuration and the queue source file give
  \<^verbatim>\<open>root\<close> and the dot. \<^verbatim>\<open>Split\<close> is \<^verbatim>\<open>strings.Split\<close> at the dot: it never
  returns an empty list.
\<close>

definition RootQueue :: string where
  "RootQueue = ''root''"

definition DOT :: char where
  "DOT = CHR ''.''"

fun Split :: "string \<Rightarrow> string list" where
  "Split [] = [[]]"
| "Split (c # cs) =
     (if c = DOT then [] # Split cs
      else (case Split cs of [] \<Rightarrow> [[c]] | w # ws \<Rightarrow> (c # w) # ws))"

text \<open>
  The loop of \<^verbatim>\<open>getQueue\<close>: \<^verbatim>\<open>queue\<close> is the queue reached so far (with its
  reference), the list holds the parts still to walk; a child that is not found ends the
  walk with nil.
\<close>

fun descend :: "Queue \<Rightarrow> QueueRef \<Rightarrow> string list \<Rightarrow> QueueRef option" where
  "descend queue ref [] = Some ref"
| "descend queue ref (p # ps) =
     (case GetChildQueue queue p of
        None \<Rightarrow> None
      | Some child \<Rightarrow> descend child (ref @ [p]) ps)"

definition getQueue :: "PartitionContext \<Rightarrow> string \<Rightarrow> QueueRef option" where
  "getQueue pc name =
     (let part = Split (ToLower name) in
      if length part = 0 \<or> part ! 0 \<noteq> RootQueue then None
      else descend (root pc) [] (tl part))"

text \<open>\<^verbatim>\<open>GetQueue\<close>: the wrapper that takes the lock.\<close>

definition GetQueue :: "PartitionContext \<Rightarrow> string \<Rightarrow> QueueRef option" where
  "GetQueue pc name = getQueue pc name"

subsection \<open>Reservations\<close>












subsection \<open>Nodes and their allocations\<close>















subsection \<open>Applications\<close>

text \<open>
  \<^verbatim>\<open>strings.HasPrefix\<close>, \<^verbatim>\<open>strings.Contains\<close> and \<^verbatim>\<open>strings.LastIndex\<close> for the
  dot (\<^verbatim>\<open>-1\<close> when there is none).
\<close>

definition HasPrefix :: "string \<Rightarrow> string \<Rightarrow> bool" where
  "HasPrefix s prefix = (take (length prefix) s = prefix)"

definition Contains :: "string \<Rightarrow> char \<Rightarrow> bool" where
  "Contains s c = (c \<in> set s)"

definition LastIndex :: "string \<Rightarrow> char \<Rightarrow> int" where
  "LastIndex s c =
     (case filter (\<lambda>i. s ! i = c) (rev [0..<length s]) of [] \<Rightarrow> - 1 | i # _ \<Rightarrow> int i)"

text \<open>
  The first loop of \<^verbatim>\<open>createQueue\<close>: while the queue \<^verbatim>\<open>current\<close> does not exist, its
  last name is put on \<^verbatim>\<open>toCreate\<close> and cut off. Without a dot left, the slice
  \<^verbatim>\<open>current[0:-1]\<close> panics.
\<close>

function findExisting ::
  "PartitionContext \<Rightarrow> string \<Rightarrow> string list \<Rightarrow> (string \<times> string list \<times> QueueRef) option" where
  "findExisting pc current toCreate =
     (case getQueue pc current of
        Some queue \<Rightarrow> Some (current, toCreate, queue)
      | None \<Rightarrow>
          (let i = LastIndex current DOT in
           if i < 0 then None
           else findExisting pc (take (nat i) current) (toCreate @ [drop (nat (i + 1)) current])))"
  by pat_completeness auto
termination
proof (relation "measure (\<lambda>(pc, current, toCreate). length current)")
  show "wf (measure (\<lambda>(pc, current, toCreate). length current))" by simp
next
  fix pc :: PartitionContext and current :: string and toCreate :: "string list" and x :: int
  assume "x = LastIndex current DOT" and "\<not> x < 0"
  moreover have "LastIndex current DOT < int (length current)"
  proof (cases "filter (\<lambda>i. current ! i = DOT) (rev [0..<length current])")
    case Nil
    then show ?thesis by (simp add: LastIndex_def)
  next
    case (Cons i rest)
    then have "i \<in> set (filter (\<lambda>i. current ! i = DOT) (rev [0..<length current]))" by simp
    then have "i < length current" by simp
    with Cons show ?thesis by (simp add: LastIndex_def)
  qed
  ultimately have "nat x < length current" by simp
  then show "((pc, take (nat x) current, toCreate @ [drop (nat (x + 1)) current]),
              (pc, current, toCreate)) \<in> measure (\<lambda>(pc, current, toCreate). length current)"
    by simp
qed

text \<open>
  The second loop of \<^verbatim>\<open>createQueue\<close>, over the names in the order of creation (the
  reverse of \<^verbatim>\<open>toCreate\<close>): only the last queue created is a leaf.
\<close>

fun createAll :: "Queue \<Rightarrow> QueueRef \<Rightarrow> string list \<Rightarrow> Queue \<times> (error + QueueRef)" where
  "createAll rootq queue [] = (rootq, Inr queue)"
| "createAll rootq queue (name # names) =
     (case NewDynamicQueue rootq name (names = []) queue of
        (root', Inl err) \<Rightarrow> (root', Inl err)
      | (root', Inr created) \<Rightarrow> createAll root' created names)"

definition createQueue ::
  "PartitionContext \<Rightarrow> string \<Rightarrow> UserGroup \<Rightarrow> (PartitionContext \<times> (error + QueueRef)) option" where
  "createQueue pc name u =
     (if \<not> HasPrefix name RootQueue \<or> \<not> Contains name DOT
      then Some (pc, Inl (IllegalQueueName name))
      else (case findExisting pc name [] of
              None \<Rightarrow> None
            | Some (current, toCreate, queue) \<Rightarrow>
                if \<not> QueueCheckSubmitAccess (root pc) queue u
                then Some (pc, Inl (SubmitDenied current name))
                else if IsLeafQueue (root pc) queue
                then Some (pc, Inl (ParentIsLeaf name current))
                else (case createAll (root pc) queue (rev toCreate) of
                        (root', res) \<Rightarrow> Some (pc\<lparr>root := root'\<rparr>, res))))"

text \<open>
  \<^verbatim>\<open>AddApplication\<close>, in three steps: the placement of the application (which may set
  its queue name), the lookup or creation of the queue, and the final check and update.
\<close>

definition placeStep :: "PartitionContext \<Rightarrow> Application \<Rightarrow> error + Application" where
  "placeStep pc app =
     (if IsInitialised (placementManager pc)
      then (case PlaceApplication (placementManager pc) (root pc) app of
              Inl err \<Rightarrow> Inl (PlacementFailed (ApplicationID app) err)
            | Inr queueName \<Rightarrow>
                if queueName = [] then Inl (RejectedByRules (ApplicationID app))
                else Inr (app\<lparr>QueueName := queueName\<rparr>))
      else Inr app)"

definition linkStep ::
  "PartitionContext \<Rightarrow> Application \<Rightarrow> QueueRef \<Rightarrow> PartitionContext \<times> error option" where
  "linkStep pc app queue =
     (if \<not> IsLeafQueue (root pc) queue \<or> \<not> QueueCheckSubmitAccess (root pc) queue (GetUser app)
      then (pc, Some (QueueNotFound (QueueName app) (ApplicationID app)))
      else (pc\<lparr>root := QueueAddApplication (root pc) queue app,
                applications := (applications pc)(ApplicationID app \<mapsto> SetQueue app queue)\<rparr>,
            None))"

definition AddApplication ::
  "PartitionContext \<Rightarrow> Application \<Rightarrow> (PartitionContext \<times> error option) option" where
  "AddApplication pc app =
     (if isDraining pc \<or> isStopped pc
      then Some (pc, Some (PartitionStoppedApplication (PartitionName pc) (ApplicationID app)))
      else if applications pc (ApplicationID app) \<noteq> None
      then Some (pc, Some (ApplicationExists (ApplicationID app) (PartitionName pc)))
      else (case placeStep pc app of
              Inl err \<Rightarrow> Some (pc, Some err)
            | Inr placed \<Rightarrow>
                (case getQueue pc (QueueName placed) of
                   Some queue \<Rightarrow> Some (linkStep pc placed queue)
                 | None \<Rightarrow>
                     if \<not> IsInitialised (placementManager pc)
                     then Some (pc, Some (NoQueueWithoutRules (ApplicationID placed) (QueueName placed)))
                     else (case createQueue pc (QueueName placed) (GetUser placed) of
                             None \<Rightarrow> None
                           | Some (pc', Inl err) \<Rightarrow>
                               Some (pc', Some (CreateQueueFailed (QueueName placed) (ApplicationID placed)))
                           | Some (pc', Inr queue) \<Rightarrow> Some (linkStep pc' placed queue)))))"

subsection \<open>Example partition\<close>

text \<open>
  The base partition of the tests: a root queue open to everybody with the leaf
  \<^verbatim>\<open>default\<close>, no placement rules, no node yet and no total resource. \<^verbatim>\<open>app-1\<close> is
  an application placed in \<^verbatim>\<open>root.default\<close>.
\<close>

definition noPlacement :: PlacementManager where
  "noPlacement = \<lparr>IsInitialised = False, PlaceApplication = (\<lambda>rootq app. Inr (QueueName app))\<rparr>"

definition baseDefault :: Queue where
  "baseDefault = Queue ''default'' True True denyAll denyAll None [] Active [] []"

definition baseRoot :: Queue where
  "baseRoot = Queue ''root'' False True allowAll denyAll None [] Active [] [(''default'', baseDefault)]"

definition app1 :: Application where
  "app1 = \<lparr>ApplicationID = ''app-1'', QueueName = ''root.default'', appUser = someUser,
            appQueue = Some [''default''], appAllocations = Map.empty\<rparr>"

definition basePartition :: PartitionContext where
  "basePartition = \<lparr>RmID = ''testRM'', PartitionName = ''test'', root = baseRoot,
     applications = [''app-1'' \<mapsto> app1], reservedApps = [], nodes = Map.empty,
     allocations = Map.empty, placementManager = noPlacement, partitionState = Active,
     isPreemptable = False, totalPartitionResource = None\<rparr>"







section \<open>Properties of the queue structure\<close>

lemma upward_induct [case_names root child]:
  assumes "\<And>q. Parent q = None \<Longrightarrow> P q"
    and "\<And>q p. Parent q = Some p \<Longrightarrow> P p \<Longrightarrow> P q"
  shows "P q"
proof (induction q rule: lineage.induct)
  case (1 n par pr aa sa mx gr al lf mg st ch)
  then show ?case using assms by (cases par) auto
qed

lemma inc_error_iff:
  "(snd (IncAllocatedResource q r nr) \<noteq> None) = (\<not> nr \<and> list_ex (overMax r) (lineage q))"
proof (induction q rule: upward_induct)
  case (root q)
  then show ?case by (cases q) (auto simp: overMax_def Let_def split: option.splits)
next
  case (child q p)
  then show ?case
    by (cases q) (auto simp: overMax_def Let_def split: option.splits prod.splits)
qed

lemma inc_error_unchanged:
  "snd (IncAllocatedResource q r nr) \<noteq> None \<Longrightarrow> fst (IncAllocatedResource q r nr) = q"
proof (induction q rule: upward_induct)
  case (root q)
  then show ?case by (cases q) (auto simp: Let_def split: option.splits if_splits)
next
  case (child q p)
  then show ?case
    by (cases q) (auto simp: Let_def split: option.splits prod.splits if_splits)
qed

lemma inc_success_added:
  "snd (IncAllocatedResource q r nr) = None \<Longrightarrow>
   map allocatedResource (lineage (fst (IncAllocatedResource q r nr))) =
   map (\<lambda>a. Add (allocatedResource a) r) (lineage q)"
proof (induction q rule: upward_induct)
  case (root q)
  then show ?case by (cases q) (auto simp: Let_def split: option.splits if_splits)
next
  case (child q p)
  then show ?case
    by (cases q) (auto simp: Let_def split: option.splits prod.splits if_splits)
qed

text \<open>
  C1. \<^verbatim>\<open>IncAllocatedResource(r, false)\<close> returns an error whenever the queue or one of its
  ancestors has a maximum into which its allocated resource plus \<^verbatim>\<open>r\<close> does not fit (and
  for no other reason); whenever the call returns an error, the queue and all its ancestors
  are as before; when it returns nil, \<^verbatim>\<open>r\<close> has been added to the allocated resource of
  the queue and of every ancestor up to the root. With \<^verbatim>\<open>nodeReported = true\<close> the call
  returns nil.
\<close>

theorem IncAllocatedResource_contract:
  "(list_ex (overMax r) (lineage q) \<longrightarrow> snd (IncAllocatedResource q r False) \<noteq> None) \<and>
   (snd (IncAllocatedResource q r False) \<noteq> None \<longrightarrow> list_ex (overMax r) (lineage q)) \<and>
   (snd (IncAllocatedResource q r nr) \<noteq> None \<longrightarrow> fst (IncAllocatedResource q r nr) = q) \<and>
   (snd (IncAllocatedResource q r nr) = None \<longrightarrow>
      map allocatedResource (lineage (fst (IncAllocatedResource q r nr))) =
      map (\<lambda>a. Add (allocatedResource a) r) (lineage q)) \<and>
   snd (IncAllocatedResource q r True) = None"
proof -
  have "snd (IncAllocatedResource q r True) = None"
    using inc_error_iff [of q r True] by simp
  then show ?thesis
    using inc_error_iff [of q r False] inc_error_unchanged [of q r nr]
      inc_success_added [of q r nr]
    by blast
qed

text \<open>
  On the example: 3 more memory puts the root at 11 of 10, so the call from \<^verbatim>\<open>default\<close>
  fails and changes nothing; 2 more memory fits and is added at both levels.
\<close>

theorem IncAllocatedResource_contract_witness:
  "list_ex (overMax [(''memory'', 3)]) (lineage defaultQueue) \<and>
   snd (IncAllocatedResource defaultQueue [(''memory'', 3)] False) \<noteq> None \<and>
   fst (IncAllocatedResource defaultQueue [(''memory'', 3)] False) = defaultQueue \<and>
   snd (IncAllocatedResource defaultQueue [(''memory'', 2)] False) = None \<and>
   map allocatedResource (lineage (fst (IncAllocatedResource defaultQueue [(''memory'', 2)] False))) =
     [[(''memory'', 5)], [(''memory'', 10)]]"
proof -
  have over: "list_ex (overMax [(''memory'', 3)]) (lineage defaultQueue)"
    by (simp add: defaultQueue_def rootQueue_def overMax_def FitIn_def Add_def
        quantity_def dimensions_def)
  have ok: "snd (IncAllocatedResource defaultQueue [(''memory'', 2)] False) = None"
    by (simp add: defaultQueue_def rootQueue_def FitIn_def Add_def quantity_def dimensions_def
        Let_def)
  have sums: "map (\<lambda>a. Add (allocatedResource a) [(''memory'', 2)]) (lineage defaultQueue) =
      [[(''memory'', 5)], [(''memory'', 10)]]"
    by (simp add: defaultQueue_def rootQueue_def Add_def quantity_def dimensions_def)
  show ?thesis
    using over ok sums
      IncAllocatedResource_contract [of "[(''memory'', 3)]" defaultQueue False]
      IncAllocatedResource_contract [of "[(''memory'', 2)]" defaultQueue False]
    by simp
qed


lemma dec_error_iff:
  "(snd (decAllocatedResource q (Some r)) \<noteq> None) = list_ex (tooLarge r) (lineage q)"
proof (induction q rule: upward_induct)
  case (root q)
  then show ?case by (cases q) (auto simp: tooLarge_def vec_def)
next
  case (child q p)
  then show ?case
    by (cases q) (auto simp: tooLarge_def vec_def split: option.splits prod.splits)
qed

lemma dec_error_unchanged:
  "snd (decAllocatedResource q r) \<noteq> None \<Longrightarrow> fst (decAllocatedResource q r) = q"
proof (induction q rule: upward_induct)
  case (root q)
  then show ?case by (cases q) (auto split: option.splits if_splits)
next
  case (child q p)
  then show ?case
    by (cases q) (auto split: option.splits prod.splits if_splits)
qed

lemma dec_success_subtracted:
  "snd (decAllocatedResource q r) = None \<Longrightarrow>
   map allocatedResource (lineage (fst (decAllocatedResource q r))) =
   map (\<lambda>a. Sub (allocatedResource a) (vec r)) (lineage q)"
proof (induction q rule: upward_induct)
  case (root q)
  then show ?case by (cases q) (auto split: option.splits if_splits)
next
  case (child q p)
  then show ?case
    by (cases q) (auto split: option.splits prod.splits if_splits)
qed

text \<open>
  C2. For a non-nil \<^verbatim>\<open>r\<close>, \<^verbatim>\<open>decAllocatedResource(r)\<close> returns an error whenever \<^verbatim>\<open>r\<close>
  does not fit in the allocated resource of the queue or of one of its ancestors (and for no
  other reason); in that case the queue and all its ancestors are as before; when it
  returns nil, \<^verbatim>\<open>r\<close> has been subtracted from the allocated resource of the queue and of
  every ancestor up to the root.
\<close>

theorem decAllocatedResource_contract:
  "(list_ex (tooLarge r) (lineage q) \<longrightarrow> snd (decAllocatedResource q (Some r)) \<noteq> None) \<and>
   (snd (decAllocatedResource q (Some r)) \<noteq> None \<longrightarrow> list_ex (tooLarge r) (lineage q)) \<and>
   (snd (decAllocatedResource q (Some r)) \<noteq> None \<longrightarrow>
      fst (decAllocatedResource q (Some r)) = q) \<and>
   (snd (decAllocatedResource q (Some r)) = None \<longrightarrow>
      map allocatedResource (lineage (fst (decAllocatedResource q (Some r)))) =
      map (\<lambda>a. Sub (allocatedResource a) r) (lineage q))"
  using dec_error_iff [of q r] dec_error_unchanged [of q "Some r"]
    dec_success_subtracted [of q "Some r"]
  by (simp add: vec_def)

text \<open>
  On the example: releasing 4 memory from \<^verbatim>\<open>default\<close>, which holds 3, fails and changes
  nothing; releasing 2 succeeds at both levels.
\<close>

theorem decAllocatedResource_contract_witness:
  "list_ex (tooLarge [(''memory'', 4)]) (lineage defaultQueue) \<and>
   snd (decAllocatedResource defaultQueue (Some [(''memory'', 4)])) \<noteq> None \<and>
   fst (decAllocatedResource defaultQueue (Some [(''memory'', 4)])) = defaultQueue \<and>
   snd (decAllocatedResource defaultQueue (Some [(''memory'', 2)])) = None \<and>
   map allocatedResource (lineage (fst (decAllocatedResource defaultQueue (Some [(''memory'', 2)])))) =
     [[(''memory'', 1)], [(''memory'', 6)]]"
proof -
  have big: "list_ex (tooLarge [(''memory'', 4)]) (lineage defaultQueue)"
    by (simp add: defaultQueue_def rootQueue_def tooLarge_def FitIn_def quantity_def
        dimensions_def)
  have ok: "snd (decAllocatedResource defaultQueue (Some [(''memory'', 2)])) = None"
    by (simp add: defaultQueue_def rootQueue_def FitIn_def Sub_def quantity_def dimensions_def
        vec_def)
  have diffs: "map (\<lambda>a. Sub (allocatedResource a) [(''memory'', 2)]) (lineage defaultQueue) =
      [[(''memory'', 1)], [(''memory'', 6)]]"
    by (simp add: defaultQueue_def rootQueue_def Sub_def quantity_def dimensions_def)
  show ?thesis
    using big ok diffs
      decAllocatedResource_contract [of "[(''memory'', 4)]" defaultQueue]
      decAllocatedResource_contract [of "[(''memory'', 2)]" defaultQueue]
    by simp
qed

text \<open>
  C8. \<^verbatim>\<open>setMaxResource(max)\<close> on a queue with a non-nil parent leaves the queue as it is,
  every field included; on the root queue (nil parent) it sets \<^verbatim>\<open>maxResource\<close> to a
  clone of the argument and changes no other field.
\<close>

theorem setMaxResource_root_only:
  "(Parent qi \<noteq> None \<longrightarrow> setMaxResource qi m = qi) \<and>
   (Parent qi = None \<longrightarrow>
      maxResource (setMaxResource qi m) = Some (Clone m) \<and>
      Name (setMaxResource qi m) = Name qi \<and>
      Parent (setMaxResource qi m) = None \<and>
      Properties (setMaxResource qi m) = Properties qi \<and>
      adminACL (setMaxResource qi m) = adminACL qi \<and>
      submitACL (setMaxResource qi m) = submitACL qi \<and>
      guaranteedResource (setMaxResource qi m) = guaranteedResource qi \<and>
      allocatedResource (setMaxResource qi m) = allocatedResource qi \<and>
      isLeaf (setMaxResource qi m) = isLeaf qi \<and>
      isManaged (setMaxResource qi m) = isManaged qi \<and>
      stateMachine (setMaxResource qi m) = stateMachine qi \<and>
      children (setMaxResource qi m) = children qi)"
  by (cases qi) simp

text \<open>On the example: \<^verbatim>\<open>default\<close> ignores the call, the root takes the new maximum.\<close>

theorem setMaxResource_root_only_witness:
  "Parent defaultQueue \<noteq> None \<and>
   setMaxResource defaultQueue [(''memory'', 20)] = defaultQueue \<and>
   Parent rootQueue = None \<and>
   maxResource (setMaxResource rootQueue [(''memory'', 20)]) = Some [(''memory'', 20)] \<and>
   allocatedResource (setMaxResource rootQueue [(''memory'', 20)]) = [(''memory'', 8)]"
proof -
  have a: "Parent defaultQueue \<noteq> None" by (simp add: defaultQueue_def)
  have b: "Parent rootQueue = None" by (simp add: rootQueue_def)
  have c: "allocatedResource rootQueue = [(''memory'', 8)]" by (simp add: rootQueue_def)
  show ?thesis
    using a b c setMaxResource_root_only [of defaultQueue "[(''memory'', 20)]"]
      setMaxResource_root_only [of rootQueue "[(''memory'', 20)]"]
    by (simp add: Clone_def)
qed

lemma check_submit_lineage: "CheckSubmitAccess q u = list_ex (admits u) (lineage q)"
proof (induction q rule: upward_induct)
  case (root q)
  then show ?case by (cases q) (auto simp: admits_def)
next
  case (child q p)
  then show ?case by (cases q) (auto simp: admits_def)
qed

lemma admits_by_acls:
  "list_ex (admits u) qs =
   list_ex (\<lambda>p. CheckAccess (fst p) u \<or> CheckAccess (snd p) u)
     (map (\<lambda>a. (submitACL a, adminACL a)) qs)"
  by (induction qs) (auto simp: admits_def)

text \<open>
  C7. \<^verbatim>\<open>CheckSubmitAccess(u)\<close> on a queue is true exactly when some queue on the path
  from it up to the root, itself included, has a submit ACL or an admin ACL that admits
  \<^verbatim>\<open>u\<close>; two queues whose paths carry the same ACLs get the same answer, whatever else
  differs (names, children, resources), so no other queue influences the result.
\<close>

theorem CheckSubmitAccess_path_only:
  "CheckSubmitAccess q u = list_ex (admits u) (lineage q) \<and>
   (map (\<lambda>a. (submitACL a, adminACL a)) (lineage q) =
    map (\<lambda>a. (submitACL a, adminACL a)) (lineage q') \<longrightarrow>
    CheckSubmitAccess q u = CheckSubmitAccess q' u)"
  using check_submit_lineage [of q u] check_submit_lineage [of q' u]
    admits_by_acls [of u "lineage q"] admits_by_acls [of u "lineage q'"]
  by simp

text \<open>
  On the example: the wildcard submit ACL of the root admits the user at \<^verbatim>\<open>default\<close>;
  two different queues under a root that admits nobody both refuse.
\<close>

theorem CheckSubmitAccess_path_only_witness:
  "CheckSubmitAccess defaultQueue someUser \<and>
   \<not> CheckSubmitAccess lockedQueue someUser \<and>
   lockedTwin \<noteq> lockedQueue \<and>
   CheckSubmitAccess lockedTwin someUser = CheckSubmitAccess lockedQueue someUser"
proof -
  have same: "map (\<lambda>a. (submitACL a, adminACL a)) (lineage lockedTwin) =
      map (\<lambda>a. (submitACL a, adminACL a)) (lineage lockedQueue)"
    by (simp add: lockedTwin_def lockedQueue_def lockedRoot_def)
  have yes: "list_ex (admits someUser) (lineage defaultQueue)"
    by (simp add: defaultQueue_def rootQueue_def admits_def CheckAccess_def allowAll_def)
  have no: "\<not> list_ex (admits someUser) (lineage lockedQueue)"
    by (simp add: lockedQueue_def lockedRoot_def admits_def CheckAccess_def denyAll_def
        someUser_def)
  have diff: "lockedTwin \<noteq> lockedQueue"
    by (simp add: lockedTwin_def lockedQueue_def)
  show ?thesis
    using same yes no diff
      CheckSubmitAccess_path_only [of defaultQueue someUser defaultQueue]
      CheckSubmitAccess_path_only [of lockedQueue someUser lockedQueue]
      CheckSubmitAccess_path_only [of lockedTwin someUser lockedQueue]
    by blast
qed

text \<open>
  C6, as stated, fails for \<^verbatim>\<open>removeChildQueue\<close>: on a queue in the Draining state the
  call removes the child; it does not fail.
\<close>

theorem removeChildQueue_draining_counterexample:
  "IsDraining drainingParent \<and> removeChildQueue drainingParent ''sub-leaf'' \<noteq> drainingParent"
  by (simp add: drainingParent_def IsDraining_def ToLower_def lower_char_def AList.delete_eq)

text \<open>
  C6, amended. \<^verbatim>\<open>addChildQueue\<close> fails, leaving the queue as it is, when the queue is a
  leaf or is Draining, and otherwise registers the child under its name.
  \<^verbatim>\<open>removeChildQueue\<close> performs no check and cannot fail: whatever the leaf flag and the
  state, it deletes the lower-cased name from the children, and removing a child that is
  not present is a no-op.
\<close>

theorem childQueue_contract:
  "(isLeaf q \<or> IsDraining q \<longrightarrow>
      snd (addChildQueue q c) \<noteq> None \<and> fst (addChildQueue q c) = q) \<and>
   (\<not> isLeaf q \<and> \<not> IsDraining q \<longrightarrow>
      snd (addChildQueue q c) = None \<and>
      map_of (children (fst (addChildQueue q c))) (Name c) = Some c) \<and>
   children (removeChildQueue q name) = AList.delete (ToLower name) (children q) \<and>
   map_of (children (removeChildQueue q name)) (ToLower name) = None \<and>
   (map_of (children q) (ToLower name) = None \<longrightarrow> removeChildQueue q name = q)"
  by (cases q) (auto simp: IsDraining_def AList.update_conv' AList.delete_conv' map_of_eq_None_iff)

text \<open>
  On the example: the Draining parent refuses a new child; the running root accepts
  \<^verbatim>\<open>default\<close>; the root has no child \<^verbatim>\<open>Missing\<close>, so removing it changes nothing.
\<close>

theorem childQueue_contract_witness:
  "IsDraining drainingParent \<and>
   snd (addChildQueue drainingParent defaultQueue) \<noteq> None \<and>
   fst (addChildQueue drainingParent defaultQueue) = drainingParent \<and>
   \<not> isLeaf rootQueue \<and> \<not> IsDraining rootQueue \<and>
   snd (addChildQueue rootQueue defaultQueue) = None \<and>
   map_of (children (fst (addChildQueue rootQueue defaultQueue))) ''default'' = Some defaultQueue \<and>
   map_of (children rootQueue) (ToLower ''Missing'') = None \<and>
   removeChildQueue rootQueue ''Missing'' = rootQueue"
proof -
  have a: "IsDraining drainingParent"
    by (simp add: drainingParent_def IsDraining_def)
  have b: "\<not> isLeaf rootQueue \<and> \<not> IsDraining rootQueue"
    by (simp add: rootQueue_def IsDraining_def)
  have c: "map_of (children rootQueue) (ToLower ''Missing'') = None"
    by (simp add: rootQueue_def)
  have d: "Name defaultQueue = ''default''"
    by (simp add: defaultQueue_def)
  show ?thesis
    using a b c d childQueue_contract [of drainingParent defaultQueue "''Missing''"]
      childQueue_contract [of rootQueue defaultQueue "''Missing''"]
    by simp
qed

section \<open>Properties of the partition\<close>

subsection \<open>Queue lookup\<close>

lemma Split_not_empty: "Split s \<noteq> []"
  by (induction s) (auto split: list.splits)

lemma lower_char_idem: "lower_char (lower_char c) = lower_char c"
  by (cases c) (auto simp: lower_char_def Let_def)

lemma ToLower_idem: "ToLower (ToLower s) = ToLower s"
  by (simp add: ToLower_def lower_char_idem)

text \<open>
  C9. The lookup of a queue by its full path is case-insensitive: the name is lower-cased
  before the walk, so two names that are the same in lower case (two capitalizations of one
  path) give the same result, both for \<^verbatim>\<open>getQueue\<close> and for the locking wrapper
  \<^verbatim>\<open>GetQueue\<close>, and a name gives the result of its lower-cased form. A name whose first
  dot-separated part is not \<^verbatim>\<open>root\<close> after lower-casing gives nil.
\<close>

theorem getQueue_case_insensitive:
  "(ToLower a = ToLower b \<longrightarrow> getQueue pc a = getQueue pc b \<and> GetQueue pc a = GetQueue pc b) \<and>
   GetQueue pc (ToLower name) = GetQueue pc name \<and>
   (hd (Split (ToLower name)) \<noteq> RootQueue \<longrightarrow> getQueue pc name = None)"
  using Split_not_empty [of "ToLower name"]
  by (auto simp: getQueue_def GetQueue_def ToLower_idem Let_def hd_conv_nth)

text \<open>
  On the base partition: \<^verbatim>\<open>Root.Default\<close> and \<^verbatim>\<open>root.DEFAULT\<close> find the same queue,
  \<^verbatim>\<open>Default.root\<close> finds none.
\<close>

theorem getQueue_case_insensitive_witness:
  "ToLower ''Root.Default'' = ToLower ''root.DEFAULT'' \<and>
   GetQueue basePartition ''Root.Default'' = GetQueue basePartition ''root.DEFAULT'' \<and>
   GetQueue basePartition ''root.default'' = Some [''default''] \<and>
   hd (Split (ToLower ''Default.root'')) \<noteq> RootQueue \<and>
   getQueue basePartition ''Default.root'' = None"
proof -
  have same: "ToLower ''Root.Default'' = ToLower ''root.DEFAULT''"
    by code_simp
  have found: "GetQueue basePartition ''root.default'' = Some [''default'']"
    by code_simp
  have other: "hd (Split (ToLower ''Default.root'')) \<noteq> RootQueue"
    by code_simp
  show ?thesis
    using same found other
      getQueue_case_insensitive [of "''Root.Default''" "''root.DEFAULT''" basePartition "''Default.root''"]
    by simp
qed

subsection \<open>Reservation counts\<close>











subsection \<open>Adding and removing nodes\<close>



































end
